theory Spec2Isabelle
  imports Main
begin

section \<open>JavaScript values used by the client\<close>

text \<open>
  The client is JavaScript. A value that may be \<open>null\<close> or \<open>undefined\<close> is an
  \<open>option\<close>; a string is truthy exactly when it is not empty. \<open>jsOr v d\<close> is the
  expression \<open>v || d\<close> for such a \<open>v\<close>, and \<open>truthy v\<close> is what \<open>v && ...\<close> and
  \<open>if (v)\<close> test.
\<close>

fun truthy :: "string option \<Rightarrow> bool" where
  "truthy None = False"
| "truthy (Some s) = (s \<noteq> [])"

fun jsOr :: "string option \<Rightarrow> string \<Rightarrow> string" where
  "jsOr None d = d"
| "jsOr (Some s) d = (if s = [] then d else s)"

text \<open>
  A value of any type, as far as the client looks at it: \<open>undefined\<close>, \<open>null\<close>, a
  string, or a value of another type (a boolean, a number, an array, an object), of which
  the code observes only whether it is truthy and what its conversion to a string is
  (\<open>[object Object]\<close> for an object, the joined elements for an array).
\<close>

datatype js_value = JsUndefined | JsNull | JsString string | JsOther bool string

fun truthy_value :: "js_value \<Rightarrow> bool" where
  "truthy_value JsUndefined = False"
| "truthy_value JsNull = False"
| "truthy_value (JsString s) = (s \<noteq> [])"
| "truthy_value (JsOther b s) = b"

text \<open>\<open>String(v)\<close>, which is what \<open>new Error(v)\<close> stores as its message.\<close>

fun toString :: "js_value \<Rightarrow> string" where
  "toString JsUndefined = ''undefined''"
| "toString JsNull = ''null''"
| "toString (JsString s) = s"
| "toString (JsOther b s) = s"

section \<open>services/api.js: the API service\<close>

text \<open>
  \<open>const API_BASE_URL = process.env.REACT_APP_API_URL || 'http://localhost:8003'\<close>;
  the environment variable is the parameter \<open>env\<close>.
\<close>

definition API_BASE_URL :: "string option \<Rightarrow> string" where
  "API_BASE_URL env = jsOr env ''http://localhost:8003''"

text \<open>
  What axios hands to a \<open>catch\<close> block. \<open>error.response\<close> is present when the server
  answered with an error status. Its \<open>data\<close> is \<open>undefined\<close>, \<open>null\<close> (the JSON \<open>null\<close>),
  or any other body, given as \<open>Data d\<close> where \<open>d\<close> is what reading its \<open>detail\<close>
  property gives: \<open>JsUndefined\<close> when it has none, as for the empty string axios gives for
  an empty body. \<open>error.request\<close> is truthy when the request was sent.
\<close>

datatype error_data = DataUndefined | DataNull | Data js_value

record axios_error =
  error_response :: "error_data option"
  error_request :: bool
  error_message :: string

text \<open>
  The values the service throws: \<open>new Error(msg)\<close>, the \<open>TypeError\<close> of reading a
  property of \<open>null\<close> or \<open>undefined\<close>, and the caught axios error thrown again.
\<close>

datatype thrown = NewError string | TypeError string | Rethrown axios_error

text \<open>
  The message of the \<open>TypeError\<close> of reading the property \<open>p\<close> of \<open>base\<close>, which is
  \<open>null\<close> or \<open>undefined\<close>. The wording is V8's; every engine gives a non-empty one.
\<close>

definition nullPropertyMessage :: "string \<Rightarrow> string \<Rightarrow> string" where
  "nullPropertyMessage base p =
     ''Cannot read properties of '' @ base @ '' (reading '' @ [CHR 0x27] @ p @ [CHR 0x27] @ '')''"

fun message_of :: "thrown \<Rightarrow> string" where
  "message_of (NewError m) = m"
| "message_of (TypeError m) = m"
| "message_of (Rethrown e) = error_message e"

text \<open>
  \<open>handleApiError\<close>: every path throws (\<open>Inl\<close>); \<open>Inr ()\<close> would be a normal return.
  With a response, \<open>error.response.data.detail\<close> is read first, which throws when
  \<open>data\<close> is \<open>null\<close> or \<open>undefined\<close>; then
  \<open>new Error(detail || 'An error occurred')\<close> is thrown.
\<close>

definition handleApiError :: "axios_error \<Rightarrow> thrown + unit" where
  "handleApiError error =
     (case error_response error of
        Some data \<Rightarrow>
          (case data of
             DataUndefined \<Rightarrow> Inl (TypeError (nullPropertyMessage ''undefined'' ''detail''))
           | DataNull \<Rightarrow> Inl (TypeError (nullPropertyMessage ''null'' ''detail''))
           | Data detail \<Rightarrow>
               Inl (NewError (if truthy_value detail then toString detail
                              else ''An error occurred'')))
      | None \<Rightarrow>
          if error_request error
          then Inl (NewError ''No response from server. Please check your connection.'')
          else Inl (Rethrown error))"

text \<open>
  Every wrapper has the shape
  \<^verbatim>\<open>try { const response = await api.post(...); return response.data; }
catch (error) { handleApiError(error); }\<close>
  The awaited request is \<open>Inr data\<close> (the body of a successful response) or \<open>Inl error\<close>.
  The wrapper's promise rejects with a thrown value (\<open>Inl\<close>) or resolves (\<open>Inr\<close>):
  with \<open>Some data\<close>, or with \<open>None\<close>, the \<open>undefined\<close> the function would return were
  \<open>handleApiError\<close> to come back normally.
\<close>

definition tryCatch :: "axios_error + 'a \<Rightarrow> thrown + 'a option" where
  "tryCatch awaited =
     (case awaited of
        Inr data \<Rightarrow> Inr (Some data)
      | Inl error \<Rightarrow>
          (case handleApiError error of
             Inl ex \<Rightarrow> Inl ex
           | Inr u \<Rightarrow> Inr None))"

datatype http_method = GET | POST

record http_request =
  request_method :: http_method
  url :: string
  formData :: "(string \<times> string) list"

text \<open>The axios instance is the parameter \<open>api\<close>: it maps a request to what awaiting it gives.\<close>

type_synonym 'a transport = "http_request \<Rightarrow> axios_error + 'a"

text \<open>
  Three transports: one fulfils every request with \<open>data\<close>, one rejects every request with
  \<open>e\<close>, one settles every request as \<open>outcome\<close> says.
\<close>

definition answering :: "'a \<Rightarrow> 'a transport" where
  "answering data req = Inr data"

definition rejecting :: "axios_error \<Rightarrow> 'a transport" where
  "rejecting e req = Inl e"

definition replying :: "axios_error + 'a \<Rightarrow> 'a transport" where
  "replying outcome req = outcome"

definition uploadFile :: "'a transport \<Rightarrow> string \<Rightarrow> thrown + 'a option" where
  "uploadFile api file =
     tryCatch (api \<lparr>request_method = POST, url = ''/upload'', formData = [(''file'', file)]\<rparr>)"

definition startConversion :: "'a transport \<Rightarrow> string \<Rightarrow> string \<Rightarrow> thrown + 'a option" where
  "startConversion api sessionId outputFormat =
     tryCatch (api \<lparr>request_method = POST, url = ''/start/'' @ sessionId,
                    formData = [(''output_format'', outputFormat)]\<rparr>)"

definition pauseConversion :: "'a transport \<Rightarrow> string \<Rightarrow> thrown + 'a option" where
  "pauseConversion api sessionId =
     tryCatch (api \<lparr>request_method = POST, url = ''/pause/'' @ sessionId, formData = []\<rparr>)"

definition resumeConversion :: "'a transport \<Rightarrow> string \<Rightarrow> thrown + 'a option" where
  "resumeConversion api sessionId =
     tryCatch (api \<lparr>request_method = POST, url = ''/resume/'' @ sessionId, formData = []\<rparr>)"

definition cancelConversion :: "'a transport \<Rightarrow> string \<Rightarrow> thrown + 'a option" where
  "cancelConversion api sessionId =
     tryCatch (api \<lparr>request_method = POST, url = ''/cancel/'' @ sessionId, formData = []\<rparr>)"

definition getSessionProgress :: "'a transport \<Rightarrow> string \<Rightarrow> thrown + 'a option" where
  "getSessionProgress api sessionId =
     tryCatch (api \<lparr>request_method = GET, url = ''/progress/'' @ sessionId, formData = []\<rparr>)"

definition getPreviewData :: "'a transport \<Rightarrow> string \<Rightarrow> thrown + 'a option" where
  "getPreviewData api sessionId =
     tryCatch (api \<lparr>request_method = GET, url = ''/preview/'' @ sessionId, formData = []\<rparr>)"

definition resetPreviewData :: "'a transport \<Rightarrow> string \<Rightarrow> thrown + 'a option" where
  "resetPreviewData api sessionId =
     tryCatch (api \<lparr>request_method = POST, url = ''/reset-preview/'' @ sessionId, formData = []\<rparr>)"

text \<open>\<open>getDownloadUrl\<close> declares one parameter.\<close>

definition getDownloadUrl :: "string option \<Rightarrow> string \<Rightarrow> string" where
  "getDownloadUrl env sessionId = API_BASE_URL env @ ''/download/'' @ sessionId"

text \<open>
  The eight asynchronous operations of the service, each with its arguments, and the
  request each one sends.
\<close>

datatype operation =
    UploadFile string
  | StartConversion string string
  | PauseConversion string
  | ResumeConversion string
  | CancelConversion string
  | GetSessionProgress string
  | GetPreviewData string
  | ResetPreviewData string

fun perform :: "'a transport \<Rightarrow> operation \<Rightarrow> thrown + 'a option" where
  "perform api (UploadFile file) = uploadFile api file"
| "perform api (StartConversion sessionId outputFormat) = startConversion api sessionId outputFormat"
| "perform api (PauseConversion sessionId) = pauseConversion api sessionId"
| "perform api (ResumeConversion sessionId) = resumeConversion api sessionId"
| "perform api (CancelConversion sessionId) = cancelConversion api sessionId"
| "perform api (GetSessionProgress sessionId) = getSessionProgress api sessionId"
| "perform api (GetPreviewData sessionId) = getPreviewData api sessionId"
| "perform api (ResetPreviewData sessionId) = resetPreviewData api sessionId"

fun request_of :: "operation \<Rightarrow> http_request" where
  "request_of (UploadFile file) = \<lparr>request_method = POST, url = ''/upload'', formData = [(''file'', file)]\<rparr>"
| "request_of (StartConversion sessionId outputFormat) =
     \<lparr>request_method = POST, url = ''/start/'' @ sessionId, formData = [(''output_format'', outputFormat)]\<rparr>"
| "request_of (PauseConversion sessionId) =
     \<lparr>request_method = POST, url = ''/pause/'' @ sessionId, formData = []\<rparr>"
| "request_of (ResumeConversion sessionId) =
     \<lparr>request_method = POST, url = ''/resume/'' @ sessionId, formData = []\<rparr>"
| "request_of (CancelConversion sessionId) =
     \<lparr>request_method = POST, url = ''/cancel/'' @ sessionId, formData = []\<rparr>"
| "request_of (GetSessionProgress sessionId) =
     \<lparr>request_method = GET, url = ''/progress/'' @ sessionId, formData = []\<rparr>"
| "request_of (GetPreviewData sessionId) =
     \<lparr>request_method = GET, url = ''/preview/'' @ sessionId, formData = []\<rparr>"
| "request_of (ResetPreviewData sessionId) =
     \<lparr>request_method = POST, url = ''/reset-preview/'' @ sessionId, formData = []\<rparr>"

section \<open>i18n.js and the translation tables\<close>

text \<open>
  Isabelle characters are bytes: a translation that is not ASCII is the list of the bytes of
  its UTF-8 encoding.
\<close>

definition utf8 :: "nat list \<Rightarrow> string" where
  "utf8 bytes = map char_of bytes"

text \<open>
  \<open>translations/en.js\<close> and \<open>translations/he.js\<close>, each nested object flattened to its
  leaves in source order, the key of a leaf being its path joined with dots (the form in
  which \<open>t\<close> receives it). Some keys are written twice in the source.
\<close>

definition translationsEN :: "(string \<times> string) list" where
  "translationsEN =
    [(''app.title'', ''PDF to Excel/CSV Converter''),
     (''app.description'', ''Upload a PDF file and convert tables to Excel or CSV format''),
     (''upload.title'', ''Upload PDF''),
     (''upload.dropzone'', ''Drag and drop a PDF file here, or click to browse''),
     (''upload.processing'', ''Processing...''),
     (''upload.uploadButton'', ''Upload''),
     (''upload.invalidFile'', ''Please upload a valid PDF file''),
     (''upload.maxSizeExceeded'', ''File size exceeds the maximum limit of 10MB''),
     (''upload.uploadSuccess'', ''File uploaded successfully!''),
     (''upload.uploadError'', ''Error uploading file''),
     (''upload.limits'', ''Maximum file size: 10MB, File type: PDF''),
     (''upload.button'', ''Continue''),
     (''progress.title'', ''Conversion Progress''),
     (''progress.pending'', ''Ready to convert''),
     (''progress.processing'', ''Converting...''),
     (''progress.paused'', ''Paused''),
     (''progress.completed'', ''Conversion completed!''),
     (''progress.error'', ''Error during conversion''),
     (''progress.analysis'', ''Analyzing PDF structure...''),
     (''progress.page'', ''Page''),
     (''progress.of'', ''of''),
     (''progress.percent'', ''{percent}% Complete''),
     (''progress.completed'', ''Complete''),
     (''conversion.cancel'', ''Cancel''),
     (''conversion.pause'', ''Pause''),
     (''conversion.resume'', ''Resume''),
     (''conversion.start'', ''Start Conversion''),
     (''conversion.format'', ''Format''),
     (''conversion.csv'', ''CSV''),
     (''conversion.excel'', ''Excel''),
     (''conversion.title'', ''Table Extraction''),
     (''conversion.status.completed'', ''Successfully converted!''),
     (''conversion.status.processing'', ''Processing your file...''),
     (''conversion.status.error'', ''Conversion failed''),
     (''conversion.status.pending'', ''Pending''),
     (''conversion.status.paused'', ''Paused''),
     (''conversion.status.completed'', ''Completed''),
     (''conversion.status.error'', ''Error''),
     (''conversion.status.processing'', ''Processing''),
     (''conversion.status.paused'', ''Paused''),
     (''conversion.status.completed'', ''Completed''),
     (''conversion.download'', ''Download your file''),
     (''conversion.percent'', ''{percent}''),
     (''controls.start'', ''Start Conversion''),
     (''controls.pause'', ''Pause''),
     (''controls.resume'', ''Resume''),
     (''controls.cancel'', ''Cancel''),
     (''controls.download'', ''Download''),
     (''controls.downloadCSV'', ''Download CSV''),
     (''controls.downloadExcel'', ''Download Excel''),
     (''controls.chooseAnotherFile'', ''Choose Another File''),
     (''preview.title'', ''Preview''),
     (''preview.showPreview'', ''Show Preview''),
     (''preview.hidePreview'', ''Hide Preview''),
     (''preview.noData'', ''No preview data available''),
     (''preview.returnToFirstPage'', ''Return to First Page''),
     (''download.title'', ''Your Conversion is Ready!''),
     (''download.description'', ''Choose the format you prefer to download your converted file.''),
     (''features.title'', ''Key Features''),
     (''features.intelligentExtraction'', ''Intelligent Table Extraction''),
     (''features.intelligentExtractionDesc'',
      ''Our advanced algorithms identify and extract tables from your PDF files with high accuracy.''),
     (''features.rtlSupport'', ''RTL Language Support''),
     (''features.rtlSupportDesc'',
      ''Full support for right-to-left languages such as Hebrew, ensuring proper text display and organization.''),
     (''features.numberHandling'', ''Smart Number Formatting''),
     (''features.numberHandlingDesc'',
      ''Automatic detection of numeric values, ensuring they appear as numbers in your Excel or CSV file.''),
     (''error.generic'', ''An error occurred''),
     (''error.retry'', ''Retry''),
     (''language.en'', ''English''),
     (''language.he'', ''Hebrew''),
     (''language.switch'', ''Change language''),
     (''footer.help'', ''Help''),
     (''footer.about'', ''About'')]"

definition translationsHE :: "(string \<times> string) list" where
  "translationsHE =
    [(''app.title'', utf8 [215, 158, 215, 158, 215, 153, 215, 168, 32, 80, 68, 70, 32, 215, 156,
      215, 144, 215, 167, 215, 161, 215, 156, 47, 67, 83, 86]),
     (''app.description'', utf8 [215, 148, 215, 162, 215, 156, 215, 148, 32, 215, 167, 215, 149,
      215, 145, 215, 165, 32, 80, 68, 70, 32, 215, 149, 215, 148, 215, 158, 215, 168, 32, 215,
      152, 215, 145, 215, 156, 215, 144, 215, 149, 215, 170, 32, 215, 156, 215, 164, 215, 149,
      215, 168, 215, 158, 215, 152, 32, 215, 144, 215, 167, 215, 161, 215, 156, 32, 215, 144,
      215, 149, 32, 67, 83, 86]),
     (''upload.title'', utf8 [215, 148, 215, 162, 215, 156, 215, 144, 215, 170, 32, 80, 68, 70]),
     (''upload.dropzone'', utf8 [215, 146, 215, 168, 215, 149, 215, 168, 32, 215, 149, 215, 169,
      215, 151, 215, 168, 215, 168, 32, 215, 167, 215, 149, 215, 145, 215, 165, 32, 80, 68, 70,
      32, 215, 155, 215, 144, 215, 159, 44, 32, 215, 144, 215, 149, 32, 215, 156, 215, 151, 215,
      165, 32, 215, 156, 215, 162, 215, 153, 215, 149, 215, 159]),
     (''upload.processing'', utf8 [215, 158, 215, 162, 215, 145, 215, 147, 46, 46, 46]),
     (''upload.uploadButton'', utf8 [215, 148, 215, 162, 215, 156, 215, 144, 215, 148]),
     (''upload.invalidFile'', utf8 [215, 144, 215, 160, 215, 144, 32, 215, 148, 215, 162, 215,
      156, 215, 148, 32, 215, 167, 215, 149, 215, 145, 215, 165, 32, 80, 68, 70, 32, 215, 170,
      215, 167, 215, 153, 215, 159]),
     (''upload.maxSizeExceeded'', utf8 [215, 146, 215, 149, 215, 147, 215, 156, 32, 215, 148,
      215, 167, 215, 149, 215, 145, 215, 165, 32, 215, 162, 215, 149, 215, 145, 215, 168, 32,
      215, 144, 215, 170, 32, 215, 148, 215, 158, 215, 146, 215, 145, 215, 156, 215, 148, 32,
      215, 169, 215, 156, 32, 49, 48, 77, 66]),
     (''upload.uploadSuccess'', utf8 [215, 148, 215, 167, 215, 149, 215, 145, 215, 165, 32, 215,
      148, 215, 149, 215, 162, 215, 156, 215, 148, 32, 215, 145, 215, 148, 215, 166, 215, 156,
      215, 151, 215, 148, 33]),
     (''upload.uploadError'', utf8 [215, 169, 215, 146, 215, 153, 215, 144, 215, 148, 32, 215,
      145, 215, 148, 215, 162, 215, 156, 215, 144, 215, 170, 32, 215, 148, 215, 167, 215, 149,
      215, 145, 215, 165]),
     (''upload.limits'', utf8 [215, 146, 215, 149, 215, 147, 215, 156, 32, 215, 158, 215, 167,
      215, 161, 215, 153, 215, 158, 215, 156, 215, 153, 58, 32, 49, 48, 77, 66, 44, 32, 215,
      161, 215, 149, 215, 146, 32, 215, 167, 215, 149, 215, 145, 215, 165, 58, 32, 80, 68, 70]),
     (''upload.button'', utf8 [215, 148, 215, 158, 215, 169, 215, 154]),
     (''progress.title'', utf8 [215, 148, 215, 170, 215, 167, 215, 147, 215, 158, 215, 149, 215,
      170, 32, 215, 148, 215, 148, 215, 158, 215, 168, 215, 148]),
     (''progress.pending'', utf8 [215, 158, 215, 149, 215, 155, 215, 159, 32, 215, 156, 215,
      148, 215, 158, 215, 168, 215, 148]),
     (''progress.processing'', utf8 [215, 158, 215, 158, 215, 153, 215, 168, 46, 46, 46]),
     (''progress.paused'', utf8 [215, 158, 215, 149, 215, 169, 215, 148, 215, 148]),
     (''progress.completed'', utf8 [215, 148, 215, 148, 215, 158, 215, 168, 215, 148, 32, 215,
      148, 215, 149, 215, 169, 215, 156, 215, 158, 215, 148, 33]),
     (''progress.error'', utf8 [215, 169, 215, 146, 215, 153, 215, 144, 215, 148, 32, 215, 145,
      215, 158, 215, 148, 215, 156, 215, 154, 32, 215, 148, 215, 148, 215, 158, 215, 168, 215,
      148]),
     (''progress.analysis'', utf8 [215, 158, 215, 160, 215, 170, 215, 151, 32, 215, 144, 215,
      170, 32, 215, 158, 215, 145, 215, 160, 215, 148, 32, 215, 148, 45, 80, 68, 70, 46, 46,
      46]),
     (''progress.page'', utf8 [215, 162, 215, 158, 215, 149, 215, 147]),
     (''progress.of'', utf8 [215, 158, 215, 170, 215, 149, 215, 154]),
     (''progress.percent'', utf8 [215, 148, 215, 149, 215, 169, 215, 156, 215, 157, 32, 123,
      112, 101, 114, 99, 101, 110, 116, 125, 37]),
     (''progress.completed'', utf8 [215, 148, 215, 149, 215, 169, 215, 156, 215, 157]),
     (''conversion.cancel'', utf8 [215, 145, 215, 152, 215, 156]),
     (''conversion.pause'', utf8 [215, 148, 215, 169, 215, 148, 215, 148]),
     (''conversion.resume'', utf8 [215, 148, 215, 158, 215, 169, 215, 154]),
     (''conversion.start'', utf8 [215, 148, 215, 170, 215, 151, 215, 156, 32, 215, 148, 215,
      158, 215, 168, 215, 148]),
     (''conversion.format'', utf8 [215, 164, 215, 149, 215, 168, 215, 158, 215, 152]),
     (''conversion.csv'', ''CSV''),
     (''conversion.excel'', utf8 [215, 144, 215, 167, 215, 161, 215, 156]),
     (''conversion.title'', utf8 [215, 151, 215, 153, 215, 156, 215, 149, 215, 165, 32, 215,
      152, 215, 145, 215, 156, 215, 144, 215, 149, 215, 170]),
     (''conversion.status.completed'', utf8 [215, 148, 215, 148, 215, 158, 215, 168, 215, 148,
      32, 215, 148, 215, 149, 215, 169, 215, 156, 215, 158, 215, 148, 32, 215, 145, 215, 148,
      215, 166, 215, 156, 215, 151, 215, 148, 33]),
     (''conversion.status.processing'', utf8 [215, 158, 215, 162, 215, 145, 215, 147, 32, 215,
      144, 215, 170, 32, 215, 148, 215, 167, 215, 149, 215, 145, 215, 165, 32, 215, 169, 215,
      156, 215, 154, 46, 46, 46]),
     (''conversion.status.error'', utf8 [215, 148, 215, 148, 215, 158, 215, 168, 215, 148, 32,
      215, 160, 215, 155, 215, 169, 215, 156, 215, 148]),
     (''conversion.status.pending'', utf8 [215, 158, 215, 158, 215, 170, 215, 153, 215, 159]),
     (''conversion.status.paused'', utf8 [215, 158, 215, 149, 215, 169, 215, 148, 215, 148]),
     (''conversion.status.completed'', utf8 [215, 148, 215, 149, 215, 169, 215, 156, 215, 158,
      215, 148]),
     (''conversion.status.error'', utf8 [215, 169, 215, 146, 215, 153, 215, 144, 215, 148]),
     (''conversion.status.processing'', utf8 [215, 158, 215, 162, 215, 145, 215, 147]),
     (''conversion.status.paused'', utf8 [215, 158, 215, 149, 215, 169, 215, 148, 215, 148]),
     (''conversion.status.completed'', utf8 [215, 148, 215, 149, 215, 169, 215, 156, 215, 158,
      215, 148]),
     (''conversion.download'', utf8 [215, 148, 215, 149, 215, 168, 215, 147, 32, 215, 144, 215,
      170, 32, 215, 148, 215, 167, 215, 149, 215, 145, 215, 165, 32, 215, 169, 215, 156, 215,
      154]),
     (''controls.start'', utf8 [215, 148, 215, 170, 215, 151, 215, 156, 32, 215, 148, 215, 158,
      215, 168, 215, 148]),
     (''controls.pause'', utf8 [215, 148, 215, 169, 215, 148, 215, 148]),
     (''controls.resume'', utf8 [215, 148, 215, 158, 215, 169, 215, 154]),
     (''controls.cancel'', utf8 [215, 145, 215, 152, 215, 156]),
     (''controls.download'', utf8 [215, 148, 215, 149, 215, 168, 215, 147, 215, 148]),
     (''controls.downloadCSV'', utf8 [215, 148, 215, 149, 215, 168, 215, 147, 32, 67, 83, 86]),
     (''controls.downloadExcel'', utf8 [215, 148, 215, 149, 215, 168, 215, 147, 32, 215, 144,
      215, 167, 215, 161, 215, 156]),
     (''controls.chooseAnotherFile'', utf8 [215, 145, 215, 151, 215, 168, 32, 215, 167, 215,
      149, 215, 145, 215, 165, 32, 215, 144, 215, 151, 215, 168]),
     (''preview.title'', utf8 [215, 170, 215, 166, 215, 149, 215, 146, 215, 148, 32, 215, 158,
      215, 167, 215, 147, 215, 153, 215, 158, 215, 148]),
     (''preview.showPreview'', utf8 [215, 148, 215, 166, 215, 146, 32, 215, 170, 215, 166, 215,
      149, 215, 146, 215, 148, 32, 215, 158, 215, 167, 215, 147, 215, 153, 215, 158, 215, 148]),
     (''preview.hidePreview'', utf8 [215, 148, 215, 161, 215, 170, 215, 168, 32, 215, 170, 215,
      166, 215, 149, 215, 146, 215, 148, 32, 215, 158, 215, 167, 215, 147, 215, 153, 215, 158,
      215, 148]),
     (''preview.noData'', utf8 [215, 144, 215, 153, 215, 159, 32, 215, 160, 215, 170, 215, 149,
      215, 160, 215, 153, 215, 157, 32, 215, 150, 215, 158, 215, 153, 215, 160, 215, 153, 215,
      157, 32, 215, 156, 215, 170, 215, 166, 215, 149, 215, 146, 215, 148, 32, 215, 158, 215,
      167, 215, 147, 215, 153, 215, 158, 215, 148]),
     (''preview.returnToFirstPage'', utf8 [215, 151, 215, 150, 215, 149, 215, 168, 32, 215, 156,
      215, 162, 215, 158, 215, 149, 215, 147, 32, 215, 148, 215, 168, 215, 144, 215, 169, 215,
      149, 215, 159]),
     (''download.title'', utf8 [215, 148, 215, 148, 215, 158, 215, 168, 215, 148, 32, 215, 169,
      215, 156, 215, 154, 32, 215, 158, 215, 149, 215, 155, 215, 160, 215, 148, 33]),
     (''download.description'', utf8 [215, 145, 215, 151, 215, 168, 32, 215, 144, 215, 170, 32,
      215, 148, 215, 164, 215, 149, 215, 168, 215, 158, 215, 152, 32, 215, 148, 215, 158, 215,
      149, 215, 162, 215, 147, 215, 163, 32, 215, 162, 215, 156, 215, 153, 215, 154, 32, 215,
      156, 215, 148, 215, 149, 215, 168, 215, 147, 215, 170, 32, 215, 148, 215, 167, 215, 149,
      215, 145, 215, 165, 32, 215, 148, 215, 158, 215, 149, 215, 158, 215, 168, 46]),
     (''features.title'', utf8 [215, 170, 215, 155, 215, 149, 215, 160, 215, 149, 215, 170, 32,
      215, 162, 215, 153, 215, 167, 215, 168, 215, 153, 215, 149, 215, 170]),
     (''features.intelligentExtraction'', utf8 [215, 151, 215, 153, 215, 156, 215, 149, 215,
      165, 32, 215, 152, 215, 145, 215, 156, 215, 144, 215, 149, 215, 170, 32, 215, 151, 215,
      155, 215, 157]),
     (''features.intelligentExtractionDesc'', utf8 [215, 148, 215, 144, 215, 156, 215, 146, 215,
      149, 215, 168, 215, 153, 215, 170, 215, 158, 215, 153, 215, 157, 32, 215, 148, 215, 158,
      215, 170, 215, 167, 215, 147, 215, 158, 215, 153, 215, 157, 32, 215, 169, 215, 156, 215,
      160, 215, 149, 32, 215, 158, 215, 150, 215, 148, 215, 153, 215, 157, 32, 215, 149, 215,
      158, 215, 151, 215, 156, 215, 166, 215, 153, 215, 157, 32, 215, 152, 215, 145, 215, 156,
      215, 144, 215, 149, 215, 170, 32, 215, 158, 215, 167, 215, 145, 215, 166, 215, 153, 32,
      80, 68, 70, 32, 215, 169, 215, 156, 215, 154, 32, 215, 145, 215, 147, 215, 153, 215, 149,
      215, 167, 32, 215, 146, 215, 145, 215, 149, 215, 148, 46]),
     (''features.rtlSupport'', utf8 [215, 170, 215, 158, 215, 153, 215, 155, 215, 148, 32, 215,
      145, 215, 169, 215, 164, 215, 149, 215, 170, 32, 82, 84, 76]),
     (''features.rtlSupportDesc'', utf8 [215, 170, 215, 158, 215, 153, 215, 155, 215, 148, 32,
      215, 158, 215, 156, 215, 144, 215, 148, 32, 215, 145, 215, 169, 215, 164, 215, 149, 215,
      170, 32, 215, 158, 215, 153, 215, 158, 215, 153, 215, 159, 32, 215, 156, 215, 169, 215,
      158, 215, 144, 215, 156, 32, 215, 155, 215, 158, 215, 149, 32, 215, 162, 215, 145, 215,
      168, 215, 153, 215, 170, 44, 32, 215, 148, 215, 158, 215, 145, 215, 152, 215, 153, 215,
      151, 215, 148, 32, 215, 170, 215, 166, 215, 149, 215, 146, 215, 148, 32, 215, 149, 215,
      144, 215, 168, 215, 146, 215, 149, 215, 159, 32, 215, 160, 215, 155, 215, 149, 215, 159,
      32, 215, 169, 215, 156, 32, 215, 152, 215, 167, 215, 161, 215, 152, 46]),
     (''features.numberHandling'', utf8 [215, 162, 215, 153, 215, 166, 215, 149, 215, 145, 32,
      215, 158, 215, 161, 215, 164, 215, 168, 215, 153, 215, 157, 32, 215, 151, 215, 155, 215,
      157]),
     (''features.numberHandlingDesc'', utf8 [215, 150, 215, 153, 215, 148, 215, 149, 215, 153,
      32, 215, 144, 215, 149, 215, 152, 215, 149, 215, 158, 215, 152, 215, 153, 32, 215, 169,
      215, 156, 32, 215, 162, 215, 168, 215, 155, 215, 153, 215, 157, 32, 215, 158, 215, 161,
      215, 164, 215, 168, 215, 153, 215, 153, 215, 157, 44, 32, 215, 148, 215, 158, 215, 145,
      215, 152, 215, 153, 215, 151, 32, 215, 169, 215, 153, 215, 149, 215, 164, 215, 153, 215,
      162, 215, 149, 32, 215, 155, 215, 158, 215, 161, 215, 164, 215, 168, 215, 153, 215, 157,
      32, 215, 145, 215, 167, 215, 149, 215, 145, 215, 165, 32, 215, 148, 215, 144, 215, 167,
      215, 161, 215, 156, 32, 215, 144, 215, 149, 32, 215, 148, 45, 67, 83, 86, 32, 215, 169,
      215, 156, 215, 154, 46]),
     (''error.generic'', utf8 [215, 144, 215, 153, 215, 168, 215, 162, 215, 148, 32, 215, 169,
      215, 146, 215, 153, 215, 144, 215, 148]),
     (''error.retry'', utf8 [215, 160, 215, 161, 215, 148, 32, 215, 169, 215, 149, 215, 145]),
     (''language.en'', utf8 [215, 144, 215, 160, 215, 146, 215, 156, 215, 153, 215, 170]),
     (''language.he'', utf8 [215, 162, 215, 145, 215, 168, 215, 153, 215, 170]),
     (''language.switch'', utf8 [215, 148, 215, 151, 215, 156, 215, 163, 32, 215, 169, 215, 164,
      215, 148]),
     (''footer.help'', utf8 [215, 162, 215, 150, 215, 168, 215, 148]),
     (''footer.about'', utf8 [215, 144, 215, 149, 215, 147, 215, 149, 215, 170])]"

text \<open>In an object literal a later duplicate key replaces the earlier one.\<close>

definition property :: "(string \<times> string) list \<Rightarrow> string \<Rightarrow> string option" where
  "property obj key = map_of (rev obj) key"

text \<open>The \<open>resources\<close> option of \<open>i18n.init\<close>: bundles for \<open>en\<close> and \<open>he\<close> only.\<close>

definition resources :: "string \<Rightarrow> (string \<times> string) list" where
  "resources lng =
     (if lng = ''en'' then translationsEN else if lng = ''he'' then translationsHE else [])"

text \<open>
  The language part of a code: what precedes its first hyphen (\<open>he\<close> for \<open>he-IL\<close>).
\<close>

definition languagePart :: "string \<Rightarrow> string" where
  "languagePart lng = takeWhile (\<lambda>ch. ch \<noteq> CHR ''-'') lng"

text \<open>
  The translation function \<open>t\<close> of i18next under this configuration
  (\<open>fallbackLng: 'en'\<close>, the default \<open>load: 'all'\<close>, no missing-key handler): the value in
  the bundle of the language code, else in the bundle of its language part, else in the
  bundle of the fallback language, else the key itself. Codes are compared as written. The
  model covers the keys that name a leaf or nothing and hold no namespace separator
  \<open>:\<close>; the keys of this application are of that kind.
\<close>

definition i18n_t :: "string \<Rightarrow> string \<Rightarrow> string" where
  "i18n_t lng key =
     (case property (resources lng) key of
        Some v \<Rightarrow> v
      | None \<Rightarrow>
          (case property (resources (languagePart lng)) key of
             Some v \<Rightarrow> v
           | None \<Rightarrow>
               (case property (resources ''en'') key of
                  Some v \<Rightarrow> v
                | None \<Rightarrow> key)))"

record document =
  dir :: string
  lang :: string

definition updateDocumentDirection :: "string \<Rightarrow> document \<Rightarrow> document" where
  "updateDocumentDirection lng doc =
     doc\<lparr>dir := (if lng = ''he'' then ''rtl'' else ''ltr''), lang := lng\<rparr>"

text \<open>
  The page: \<open>i18n.language\<close> (\<open>undefined\<close> until i18next has set it) and
  \<open>document.documentElement\<close>.
\<close>

record page =
  language :: "string option"
  documentElement :: document

text \<open>\<open>updateDocumentDirection(i18n.language || 'en')\<close>, run once when the module loads.\<close>

definition setInitialDirection :: "page \<Rightarrow> page" where
  "setInitialDirection p =
     p\<lparr>documentElement := updateDocumentDirection (jsOr (language p) ''en'') (documentElement p)\<rparr>"

text \<open>
  A language change: i18next makes \<open>lng\<close> the language and emits \<open>languageChanged\<close> with
  it; the listener registered by \<open>i18n.on\<close> calls \<open>updateDocumentDirection(lng)\<close>.
\<close>

definition languageChanged :: "string \<Rightarrow> page \<Rightarrow> page" where
  "languageChanged lng p =
     p\<lparr>language := Some lng,
       documentElement := updateDocumentDirection lng (documentElement p)\<rparr>"

text \<open>
  The active language: \<open>i18n.language\<close>, and the \<open>lng: 'en'\<close> of the configuration while
  that is still \<open>undefined\<close>.
\<close>

definition activeLanguage :: "page \<Rightarrow> string" where
  "activeLanguage p = (case language p of None \<Rightarrow> ''en'' | Some l \<Rightarrow> l)"

text \<open>Module load followed by the language changes \<open>lngs\<close>, in order.\<close>

definition afterChanges :: "page \<Rightarrow> string list \<Rightarrow> page" where
  "afterChanges p lngs = foldl (\<lambda>q lng. languageChanged lng q) (setInitialDirection p) lngs"

section \<open>components/ProgressTracker.js\<close>

datatype icon = HourglassEmpty | PlayArrow | Pause | CheckCircle | ErrorIcon | Analytics

record status_config =
  icon :: icon
  color :: string
  label :: string

text \<open>The \<open>switch (status)\<close> of \<open>getStatusConfig\<close>, case by case; \<open>t\<close> is the translation function.\<close>

definition getStatusConfig :: "(string \<Rightarrow> string) \<Rightarrow> string \<Rightarrow> status_config" where
  "getStatusConfig t status =
     (if status = ''pending'' then
        \<lparr>icon = HourglassEmpty, color = ''default'', label = t ''conversion.status.pending''\<rparr>
      else if status = ''processing'' then
        \<lparr>icon = PlayArrow, color = ''primary'', label = t ''conversion.status.processing''\<rparr>
      else if status = ''paused'' then
        \<lparr>icon = Pause, color = ''secondary'', label = t ''conversion.status.paused''\<rparr>
      else if status = ''completed'' then
        \<lparr>icon = CheckCircle, color = ''success'', label = t ''conversion.status.completed''\<rparr>
      else if status = ''error'' then
        \<lparr>icon = ErrorIcon, color = ''error'', label = t ''conversion.status.error''\<rparr>
      else if status = ''analysis'' then
        \<lparr>icon = Analytics, color = ''info'', label = t ''progress.analysis''\<rparr>
      else
        \<lparr>icon = HourglassEmpty, color = ''default'', label = status\<rparr>)"

text \<open>The status set of the specification's data model, in its words.\<close>

definition spec_statuses :: "string list" where
  "spec_statuses =
     [''pending'', ''analyzing'', ''processing'', ''paused'', ''completed'', ''error'', ''cancelled'']"

text \<open>The terminal states of the specification's state machine, in its words.\<close>

definition spec_terminal :: "string \<Rightarrow> bool" where
  "spec_terminal status =
     (status = ''completed'' \<or> status = ''error'' \<or> status = ''cancelled'')"

section \<open>Server responses\<close>

text \<open>
  The object the upload and the control endpoints answer with (\<open>session_id\<close>, \<open>status\<close>),
  and the status object of the progress endpoint, of which the client reads \<open>status\<close>,
  \<open>progress\<close> and \<open>error\<close>.
\<close>

record session_data =
  session_id :: string
  session_status :: string

record progress_response =
  response_status :: string
  response_progress :: int
  response_error :: "string option"

section \<open>components/ConversionControls.js\<close>

record controls_state =
  outputFormat :: string
  controlsError :: "string option"
  loading :: bool

definition initialControls :: controls_state where
  "initialControls = \<lparr>outputFormat = ''xlsx'', controlsError = None, loading = False\<rparr>"

definition isProcessing :: "string \<Rightarrow> bool" where
  "isProcessing status = (status = ''processing'')"

definition isPaused :: "string \<Rightarrow> bool" where
  "isPaused status = (status = ''paused'')"

definition isCompleted :: "string \<Rightarrow> bool" where
  "isCompleted status = (status = ''completed'')"

definition isError :: "string \<Rightarrow> bool" where
  "isError status = (status = ''error'')"

definition isPending :: "string \<Rightarrow> bool" where
  "isPending status = (status = ''pending'')"

text \<open>
  What the component returns: the format \<open>RadioGroup\<close> with its value when it is
  rendered, the \<open>ButtonGroup\<close> with its \<open>disabled\<close> flag and its buttons in order, and
  the error \<open>Alert\<close> with its text when it is rendered.
\<close>

datatype button = StartButton | PauseButton | ResumeButton | CancelButton

record controls_view =
  formatRadioGroup :: "string option"
  buttonGroupDisabled :: bool
  buttons :: "button list"
  alert :: "string option"

definition renderControls :: "string \<Rightarrow> controls_state \<Rightarrow> controls_view" where
  "renderControls status c =
     \<lparr>formatRadioGroup = (if isPending status then Some (outputFormat c) else None),
      buttonGroupDisabled = loading c,
      buttons =
        (if isPending status then [StartButton] else []) @
        (if isProcessing status then [PauseButton] else []) @
        (if isPaused status then [ResumeButton] else []) @
        (if isProcessing status \<or> isPaused status then [CancelButton] else []),
      alert = (if truthy (controlsError c) then controlsError c else None)\<rparr>"

text \<open>
  The handlers act on the component's own state and, through the callbacks it was given,
  on the parent's state \<open>'p\<close>. \<open>onFormatChange\<close> is optional.
\<close>

definition handleFormatChange ::
  "(string \<Rightarrow> 'p \<Rightarrow> 'p) option \<Rightarrow> string \<Rightarrow> controls_state \<times> 'p \<Rightarrow> controls_state \<times> 'p" where
  "handleFormatChange onFormatChange newFormat cp =
     (case cp of (c, p) \<Rightarrow>
        (c\<lparr>outputFormat := newFormat\<rparr>,
         case onFormatChange of Some f \<Rightarrow> f newFormat p | None \<Rightarrow> p))"

text \<open>
  The body shared by \<open>handleStart\<close>, \<open>handlePause\<close>, \<open>handleResume\<close> and
  \<open>handleCancel\<close>, given what the awaited service call came to:
  \<^verbatim>\<open>setLoading(true); setError(null);
try { const response = await ...; onStatusChange(response.status); }
catch (error) { setError(error.message || t('error.conversion')); }
finally { setLoading(false); }\<close>
  Reading \<open>response.status\<close> of an \<open>undefined\<close> response is a \<open>TypeError\<close>, caught
  like the others.
\<close>

definition settled ::
  "(string \<Rightarrow> string) \<Rightarrow> (string \<Rightarrow> 'p \<Rightarrow> 'p) \<Rightarrow> thrown + session_data option \<Rightarrow>
   controls_state \<times> 'p \<Rightarrow> controls_state \<times> 'p" where
  "settled t onStatusChange outcome cp =
     (case cp of (c, p) \<Rightarrow>
        (let c1 = c\<lparr>loading := True, controlsError := None\<rparr> in
         case outcome of
           Inr (Some response) \<Rightarrow>
             (c1\<lparr>loading := False\<rparr>, onStatusChange (session_status response) p)
         | Inr None \<Rightarrow>
             (c1\<lparr>controlsError :=
                   Some (jsOr (Some (nullPropertyMessage ''undefined'' ''status''))
                           (t ''error.conversion'')),
                 loading := False\<rparr>, p)
         | Inl error \<Rightarrow>
             (c1\<lparr>controlsError := Some (jsOr (Some (message_of error)) (t ''error.conversion'')),
                 loading := False\<rparr>, p)))"

definition handleStart ::
  "(string \<Rightarrow> string) \<Rightarrow> (string \<Rightarrow> 'p \<Rightarrow> 'p) \<Rightarrow> session_data transport \<Rightarrow> string \<Rightarrow>
   controls_state \<times> 'p \<Rightarrow> controls_state \<times> 'p" where
  "handleStart t onStatusChange api sessionId cp =
     settled t onStatusChange (startConversion api sessionId (outputFormat (fst cp))) cp"

definition handlePause ::
  "(string \<Rightarrow> string) \<Rightarrow> (string \<Rightarrow> 'p \<Rightarrow> 'p) \<Rightarrow> session_data transport \<Rightarrow> string \<Rightarrow>
   controls_state \<times> 'p \<Rightarrow> controls_state \<times> 'p" where
  "handlePause t onStatusChange api sessionId cp =
     settled t onStatusChange (pauseConversion api sessionId) cp"

definition handleResume ::
  "(string \<Rightarrow> string) \<Rightarrow> (string \<Rightarrow> 'p \<Rightarrow> 'p) \<Rightarrow> session_data transport \<Rightarrow> string \<Rightarrow>
   controls_state \<times> 'p \<Rightarrow> controls_state \<times> 'p" where
  "handleResume t onStatusChange api sessionId cp =
     settled t onStatusChange (resumeConversion api sessionId) cp"

definition handleCancel ::
  "(string \<Rightarrow> string) \<Rightarrow> (string \<Rightarrow> 'p \<Rightarrow> 'p) \<Rightarrow> session_data transport \<Rightarrow> string \<Rightarrow>
   controls_state \<times> 'p \<Rightarrow> controls_state \<times> 'p" where
  "handleCancel t onStatusChange api sessionId cp =
     settled t onStatusChange (cancelConversion api sessionId) cp"

text \<open>
  The events a user can raise on the component, which of them the rendered controls offer
  (a control that is not rendered raises nothing, a button of a disabled group does not
  click), and the handler each one is wired to (\<open>onChange\<close> of the \<open>RadioGroup\<close>,
  \<open>onClick\<close> of each button).
\<close>

datatype controls_event = ChangeFormat string | Click button

fun offered :: "controls_view \<Rightarrow> controls_event \<Rightarrow> bool" where
  "offered v (ChangeFormat newFormat) = (formatRadioGroup v \<noteq> None)"
| "offered v (Click b) = (b \<in> set (buttons v) \<and> \<not> buttonGroupDisabled v)"

fun handler ::
  "(string \<Rightarrow> string) \<Rightarrow> (string \<Rightarrow> 'p \<Rightarrow> 'p) \<Rightarrow> (string \<Rightarrow> 'p \<Rightarrow> 'p) option \<Rightarrow>
   session_data transport \<Rightarrow> string \<Rightarrow> controls_event \<Rightarrow>
   controls_state \<times> 'p \<Rightarrow> controls_state \<times> 'p" where
  "handler t onStatusChange onFormatChange api sessionId (ChangeFormat newFormat) =
     handleFormatChange onFormatChange newFormat"
| "handler t onStatusChange onFormatChange api sessionId (Click StartButton) =
     handleStart t onStatusChange api sessionId"
| "handler t onStatusChange onFormatChange api sessionId (Click PauseButton) =
     handlePause t onStatusChange api sessionId"
| "handler t onStatusChange onFormatChange api sessionId (Click ResumeButton) =
     handleResume t onStatusChange api sessionId"
| "handler t onStatusChange onFormatChange api sessionId (Click CancelButton) =
     handleCancel t onStatusChange api sessionId"

section \<open>App\<close>

record app_state =
  session :: "session_data option"
  status :: string
  progress :: int
  polling :: bool
  error :: "string option"
  selectedFormat :: string

definition initialApp :: app_state where
  "initialApp =
     \<lparr>session = None, status = ''pending'', progress = 0, polling = False, error = None,
      selectedFormat = ''xlsx''\<rparr>"

definition handleSessionCreated :: "session_data \<Rightarrow> app_state \<Rightarrow> app_state" where
  "handleSessionCreated sessionData s =
     s\<lparr>session := Some sessionData, status := session_status sessionData, progress := 0,
       polling := True\<rparr>"

definition handleStatusChange :: "string \<Rightarrow> app_state \<Rightarrow> app_state" where
  "handleStatusChange newStatus s =
     (let s1 = s\<lparr>status := newStatus\<rparr> in
      if newStatus = ''completed'' \<or> newStatus = ''error''
      then s1\<lparr>polling := False\<rparr>
      else s1\<lparr>polling := True\<rparr>)"

definition handleReturnToFileSelection :: "app_state \<Rightarrow> app_state" where
  "handleReturnToFileSelection s =
     s\<lparr>session := None, status := ''pending'', progress := 0, error := None, polling := False\<rparr>"

definition handleFormatChange_App :: "string \<Rightarrow> app_state \<Rightarrow> app_state" where
  "handleFormatChange_App format s = s\<lparr>selectedFormat := format\<rparr>"

text \<open>
  A call of a function that declares one parameter: the first argument is bound to it,
  further arguments are dropped, and with no argument the parameter is \<open>undefined\<close>,
  which a template literal prints as that word.
\<close>

definition call1 :: "(string \<Rightarrow> 'b) \<Rightarrow> string list \<Rightarrow> 'b" where
  "call1 f args = (case args of [] \<Rightarrow> f ''undefined'' | a # rest \<Rightarrow> f a)"

text \<open>\<open>window.open(url, target)\<close>.\<close>

datatype effect = WindowOpen string string

text \<open>
  \<open>handleDownload\<close>: nothing without a session, else
  \<open>window.open(getDownloadUrl(session.session_id, selectedFormat), '_blank')\<close>.
\<close>

definition handleDownload :: "string option \<Rightarrow> app_state \<Rightarrow> effect list" where
  "handleDownload env s =
     (case session s of
        None \<Rightarrow> []
      | Some sess \<Rightarrow>
          (let downloadUrl = call1 (getDownloadUrl env) [session_id sess, selectedFormat s]
           in [WindowOpen downloadUrl ''_blank'']))"

text \<open>
  One run of the interval callback, given what \<open>await getSessionProgress(...)\<close> came to.
  A rejection is caught and logged, and so is the \<open>TypeError\<close> of an \<open>undefined\<close> response.
\<close>

definition pollTick :: "thrown + progress_response option \<Rightarrow> app_state \<Rightarrow> app_state" where
  "pollTick outcome s =
     (case outcome of
        Inl ex \<Rightarrow> s
      | Inr None \<Rightarrow> s
      | Inr (Some response) \<Rightarrow>
          (let s1 = s\<lparr>status := response_status response, progress := response_progress response\<rparr>
           in if response_status response = ''completed'' \<or> response_status response = ''error''
              then (let s2 = s1\<lparr>polling := False\<rparr>
                    in if truthy (response_error response)
                       then s2\<lparr>error := response_error response\<rparr>
                       else s2)
              else s1))"

text \<open>
  The polling effect depends on \<open>[polling, session]\<close>: after every render an interval of
  one second exists exactly when \<open>polling && session\<close>; the cleanup clears the former one.
\<close>

definition intervalRunning :: "app_state \<Rightarrow> bool" where
  "intervalRunning s = (polling s \<and> session s \<noteq> None)"

text \<open>One second passing: the callback runs when the interval exists.\<close>

definition poll :: "progress_response transport \<Rightarrow> app_state \<Rightarrow> app_state" where
  "poll api s =
     (case session s of
        None \<Rightarrow> s
      | Some sess \<Rightarrow>
          if polling s then pollTick (getSessionProgress api (session_id sess)) s else s)"

text \<open>
  What \<open>App\<close> renders in the main panel: the uploader when there is no session, else the
  tracker and the controls with their props, and under \<open>status === 'completed'\<close> the
  download button (labelled by the selected format) and the button back to file
  selection.
\<close>

datatype app_element =
    FileUploaderElement
  | ProgressTrackerElement string int "string option"
  | ConversionControlsElement string string
  | DownloadButton string
  | ChooseAnotherFileButton

definition renderApp :: "app_state \<Rightarrow> app_element list" where
  "renderApp s =
     (case session s of
        None \<Rightarrow> [FileUploaderElement]
      | Some sess \<Rightarrow>
          [ProgressTrackerElement (status s) (progress s) (error s),
           ConversionControlsElement (session_id sess) (status s)] @
          (if status s = ''completed''
           then [DownloadButton (selectedFormat s), ChooseAnotherFileButton]
           else []))"

text \<open>The \<open>onClick\<close> handlers of the elements \<open>App\<close> renders itself: new state and effects.\<close>

fun onClick :: "string option \<Rightarrow> app_element \<Rightarrow> app_state \<Rightarrow> app_state \<times> effect list" where
  "onClick env (DownloadButton format) s = (s, handleDownload env s)"
| "onClick env ChooseAnotherFileButton s = (handleReturnToFileSelection s, [])"
| "onClick env el s = (s, [])"

text \<open>
  An event on the \<open>ConversionControls\<close> that \<open>App\<close> mounts, with the props it passes
  (\<open>sessionId\<close>, \<open>status\<close>, \<open>onStatusChange = handleStatusChange\<close>,
  \<open>onFormatChange = handleFormatChange\<close>). Nothing happens without a session (the
  component is not mounted) or when the rendered controls do not offer the event.
\<close>

definition controlsEvent ::
  "(string \<Rightarrow> string) \<Rightarrow> session_data transport \<Rightarrow> controls_event \<Rightarrow>
   controls_state \<times> app_state \<Rightarrow> controls_state \<times> app_state" where
  "controlsEvent t api ev cs =
     (case session (snd cs) of
        None \<Rightarrow> cs
      | Some sess \<Rightarrow>
          if offered (renderControls (status (snd cs)) (fst cs)) ev
          then handler t handleStatusChange (Some handleFormatChange_App) api (session_id sess) ev cs
          else cs)"

text \<open>
  The events of one session, from the upload until \<open>App\<close> returns to file selection: an
  event of the user on the controls, with what the request comes to should the event send
  one, and a second passing, with what the progress request comes to should the interval
  be running. \<open>step\<close> is one event, \<open>run\<close> a sequence of them, oldest first.
\<close>

datatype session_event =
    User controls_event "axios_error + session_data"
  | Tick "axios_error + progress_response"

fun step ::
  "(string \<Rightarrow> string) \<Rightarrow> session_event \<Rightarrow>
   controls_state \<times> app_state \<Rightarrow> controls_state \<times> app_state" where
  "step t (User ev outcome) cs = controlsEvent t (replying outcome) ev cs"
| "step t (Tick outcome) cs = (fst cs, poll (replying outcome) (snd cs))"

definition run ::
  "(string \<Rightarrow> string) \<Rightarrow> session_event list \<Rightarrow>
   controls_state \<times> app_state \<Rightarrow> controls_state \<times> app_state" where
  "run t events cs = foldl (\<lambda>acc ev. step t ev acc) cs events"

text \<open>Whether the response that comes with an event reports the status \<open>pending\<close>.\<close>

fun reportsPending :: "session_event \<Rightarrow> bool" where
  "reportsPending (User (Click b) (Inr response)) = (session_status response = ''pending'')"
| "reportsPending (User ev outcome) = False"
| "reportsPending (Tick (Inr response)) = (response_status response = ''pending'')"
| "reportsPending (Tick outcome) = False"

section \<open>components/FileUploader.js\<close>

text \<open>A rejection of react-dropzone: the file and the list of its errors, each with a code.\<close>

record rejection_error =
  code :: string

record file_rejection =
  rejected_file :: string
  errors :: "rejection_error list"

record uploader_state =
  uploading :: bool
  uploadError :: "string option"
  uploadSuccess :: bool

text \<open>
  \<open>onDropRejected\<close>: the first error \<open>fileRejections[0]?.errors[0]\<close> is \<open>undefined\<close> for an empty list of
  rejections and for an empty list of errors, and then so is \<open>error?.code\<close>.
\<close>

definition onDropRejected ::
  "(string \<Rightarrow> string) \<Rightarrow> file_rejection list \<Rightarrow> uploader_state \<Rightarrow> uploader_state" where
  "onDropRejected t fileRejections u =
     (let firstError = (case fileRejections of
                          [] \<Rightarrow> None
                        | r # rest \<Rightarrow> (case errors r of [] \<Rightarrow> None | e # others \<Rightarrow> Some e));
          errorCode = map_option code firstError
      in if errorCode = Some ''file-too-large'' then u\<lparr>uploadError := Some (t ''error.fileSize'')\<rparr>
         else if errorCode = Some ''file-invalid-type'' then u\<lparr>uploadError := Some (t ''error.invalidFile'')\<rparr>
         else u\<lparr>uploadError := Some (t ''error.generic'')\<rparr>)"

text \<open>\<open>{uploadError && (<Alert severity="error" ...>{uploadError}</Alert>)}\<close>.\<close>

definition uploadErrorAlert :: "uploader_state \<Rightarrow> string option" where
  "uploadErrorAlert u = (if truthy (uploadError u) then uploadError u else None)"

section \<open>The Session Controller's pause operation\<close>

text \<open>
  Modelled from the spec: the server-side Session Controller, whose code is not among the
  sources (only the client that calls its \<open>/pause\<close> endpoint is). Following sections
  4.5, 6 and 7 of the specification: \<open>pause(session_id)\<close> answers \<open>NotFound\<close> for an
  unknown id; the transition \<open>processing \<rightarrow> paused\<close> is the only one \<open>pause\<close> triggers, so
  in every other status it fails with \<open>InvalidState\<close>, surfaced to the caller with no
  session mutation; otherwise the session of the registry becomes \<open>paused\<close> and is
  returned. The result is the registry afterwards and the answer.
\<close>

datatype control_error = InvalidState | NotFound

record server_session =
  status_of :: string
  progress_of :: nat
  current_page :: nat
  total_page_count :: nat

definition spec_pause ::
  "(string \<rightharpoonup> server_session) \<Rightarrow> string \<Rightarrow>
   (string \<rightharpoonup> server_session) \<times> (control_error + server_session)" where
  "spec_pause registry sid =
     (case registry sid of
        None \<Rightarrow> (registry, Inl NotFound)
      | Some sess \<Rightarrow>
          if status_of sess = ''processing''
          then (let sess' = sess\<lparr>status_of := ''paused''\<rparr>
                in (registry(sid \<mapsto> sess'), Inr sess'))
          else (registry, Inl InvalidState))"

section \<open>Properties\<close>

lemma perform_tryCatch: "perform api op = tryCatch (api (request_of op))"
  by (cases op)
     (simp_all add: uploadFile_def startConversion_def pauseConversion_def resumeConversion_def
        cancelConversion_def getSessionProgress_def getPreviewData_def resetPreviewData_def)

lemma handleApiError_throws: "\<exists>ex. handleApiError e = Inl ex"
  by (simp add: handleApiError_def split: option.split error_data.split)

lemma tryCatch_fulfilled: "tryCatch (Inr d) = Inr (Some d)"
  by (simp add: tryCatch_def)


subsection \<open>The translation tables have no empty value\<close>

lemma values_EN: "list_all (\<lambda>kv. snd kv \<noteq> []) translationsEN"
  unfolding translationsEN_def by simp

lemma values_HE: "list_all (\<lambda>kv. snd kv \<noteq> []) translationsHE"
  unfolding translationsHE_def utf8_def by simp

lemma property_value: "property obj key = Some v \<Longrightarrow> (key, v) \<in> set obj"
  unfolding property_def by (auto dest: map_of_SomeD)

lemma resources_nonempty: "(k, v) \<in> set (resources lng) \<Longrightarrow> v \<noteq> []"
  using values_EN values_HE unfolding resources_def list_all_iff
  by (auto split: if_splits)

lemma i18n_t_nonempty: "key \<noteq> [] \<Longrightarrow> CHR '':'' \<notin> set key \<Longrightarrow> i18n_t lng key \<noteq> []"
  unfolding i18n_t_def
  by (auto split: option.splits dest!: property_value resources_nonempty)

lemma jsOr_nonempty: "d \<noteq> [] \<Longrightarrow> jsOr v d \<noteq> []"
  by (cases v) simp_all

subsection \<open>C1\<close>

text \<open>
  C1, as stated, fails: a polled snapshot that reports \<open>cancelled\<close>, a terminal state of the
  specification, leaves \<open>polling\<close> set and the interval running. The session is the one
  created by an upload, the snapshot the one a server that answers \<open>cancelled\<close> gives.
\<close>

theorem poll_cancelled_keeps_polling:
  "spec_terminal ''cancelled'' \<and>
   polling (poll (answering \<lparr>response_status = ''cancelled'', response_progress = 40,
                              response_error = None\<rparr>)
              (handleSessionCreated \<lparr>session_id = ''abc'', session_status = ''pending''\<rparr> initialApp)) \<and>
   intervalRunning (poll (answering \<lparr>response_status = ''cancelled'', response_progress = 40,
                                      response_error = None\<rparr>)
              (handleSessionCreated \<lparr>session_id = ''abc'', session_status = ''pending''\<rparr> initialApp))"
  by (simp add: spec_terminal_def poll_def pollTick_def getSessionProgress_def tryCatch_def
      answering_def handleSessionCreated_def initialApp_def intervalRunning_def)

text \<open>
  C1, amended: for every polled progress snapshot, when the reported status is \<open>completed\<close>
  or \<open>error\<close> the callback sets \<open>polling\<close> to false and the interval is cleared; a snapshot
  that reports any other status, \<open>cancelled\<close> included, leaves \<open>polling\<close> and the session,
  and so the interval, as they were.
\<close>

theorem pollTick_stops_on_completed_or_error:
  "(response_status r = ''completed'' \<or> response_status r = ''error'' \<longrightarrow>
      \<not> polling (pollTick (Inr (Some r)) s) \<and> \<not> intervalRunning (pollTick (Inr (Some r)) s)) \<and>
   (response_status r \<noteq> ''completed'' \<and> response_status r \<noteq> ''error'' \<longrightarrow>
      polling (pollTick (Inr (Some r)) s) = polling s \<and>
      intervalRunning (pollTick (Inr (Some r)) s) = intervalRunning s)"
  by (simp add: pollTick_def intervalRunning_def Let_def)

theorem pollTick_stops_on_completed_or_error_witness:
  "\<not> polling (pollTick (Inr (Some \<lparr>response_status = ''completed'', response_progress = 100,
                                    response_error = None\<rparr>))
        (handleSessionCreated \<lparr>session_id = ''abc'', session_status = ''pending''\<rparr> initialApp)) \<and>
   polling (pollTick (Inr (Some \<lparr>response_status = ''processing'', response_progress = 40,
                                  response_error = None\<rparr>))
        (handleSessionCreated \<lparr>session_id = ''abc'', session_status = ''pending''\<rparr> initialApp))"
  using pollTick_stops_on_completed_or_error
          [of "\<lparr>response_status = ''completed'', response_progress = 100, response_error = None\<rparr>"
              "handleSessionCreated \<lparr>session_id = ''abc'', session_status = ''pending''\<rparr> initialApp"]
        pollTick_stops_on_completed_or_error
          [of "\<lparr>response_status = ''processing'', response_progress = 40, response_error = None\<rparr>"
              "handleSessionCreated \<lparr>session_id = ''abc'', session_status = ''pending''\<rparr> initialApp"]
  by (simp add: handleSessionCreated_def initialApp_def)

subsection \<open>C2\<close>

text \<open>
  C2, as stated, fails: \<open>cancelled\<close> is in the specification's status set, and for it
  \<open>getStatusConfig\<close> returns the configuration of the default branch, whose label is the
  raw status string.
\<close>

theorem getStatusConfig_cancelled_default:
  "''cancelled'' \<in> set spec_statuses \<and>
   getStatusConfig (i18n_t ''en'') ''cancelled'' =
     \<lparr>icon = HourglassEmpty, color = ''default'', label = ''cancelled''\<rparr>"
  by (simp add: spec_statuses_def getStatusConfig_def)

text \<open>
  C2, amended: over the specification's status set, in its order, \<open>getStatusConfig\<close> returns
  a configuration of its own (icon, colour, translated label) for \<open>pending\<close>, \<open>processing\<close>,
  \<open>paused\<close>, \<open>completed\<close> and \<open>error\<close>, and the configuration of the default branch, labelled
  with the raw status string, for \<open>analyzing\<close> and \<open>cancelled\<close>. The sixth case of the
  switch is the status \<open>analysis\<close>.
\<close>

theorem getStatusConfig_on_spec_statuses:
  "map (getStatusConfig t) spec_statuses =
     [\<lparr>icon = HourglassEmpty, color = ''default'', label = t ''conversion.status.pending''\<rparr>,
      \<lparr>icon = HourglassEmpty, color = ''default'', label = ''analyzing''\<rparr>,
      \<lparr>icon = PlayArrow, color = ''primary'', label = t ''conversion.status.processing''\<rparr>,
      \<lparr>icon = Pause, color = ''secondary'', label = t ''conversion.status.paused''\<rparr>,
      \<lparr>icon = CheckCircle, color = ''success'', label = t ''conversion.status.completed''\<rparr>,
      \<lparr>icon = ErrorIcon, color = ''error'', label = t ''conversion.status.error''\<rparr>,
      \<lparr>icon = HourglassEmpty, color = ''default'', label = ''cancelled''\<rparr>] \<and>
   getStatusConfig t ''analysis'' =
     \<lparr>icon = Analytics, color = ''info'', label = t ''progress.analysis''\<rparr>"
  by (simp add: spec_statuses_def getStatusConfig_def)

subsection \<open>C3\<close>

text \<open>
  C3, as stated, fails: with status \<open>pending\<close>, from which the specification permits the
  cancel transition, the freshly mounted component renders no cancel button and does not
  offer the click.
\<close>

theorem no_cancel_button_when_pending:
  "CancelButton \<notin> set (buttons (renderControls ''pending'' initialControls)) \<and>
   \<not> offered (renderControls ''pending'' initialControls) (Click CancelButton)"
  by (simp add: renderControls_def isPending_def isProcessing_def isPaused_def)

text \<open>
  C3, amended: for every session status, \<open>ConversionControls\<close> renders the cancel button
  exactly when the status is \<open>processing\<close> or \<open>paused\<close> (and the button takes the click
  exactly when, besides, no request of the component is in flight). With the status
  \<open>pending\<close> the start button is the only button, next to the format selector.
\<close>

theorem cancel_button_iff_processing_or_paused:
  "(CancelButton \<in> set (buttons (renderControls st c))) = (st = ''processing'' \<or> st = ''paused'') \<and>
   offered (renderControls st c) (Click CancelButton) =
     ((st = ''processing'' \<or> st = ''paused'') \<and> \<not> loading c) \<and>
   buttons (renderControls ''pending'' c) = [StartButton] \<and>
   formatRadioGroup (renderControls ''pending'' c) = Some (outputFormat c)"
  by (auto simp add: renderControls_def isPending_def isProcessing_def isPaused_def)

subsection \<open>C4\<close>

lemma settled_outputFormat: "outputFormat (fst (settled t f outcome (c, p))) = outputFormat c"
  by (simp add: settled_def Let_def split: sum.split option.split)

lemma handleStatusChange_selectedFormat:
  "selectedFormat (handleStatusChange newStatus s) = selectedFormat s"
  by (simp add: handleStatusChange_def Let_def)

lemma handleStatusChange_status: "status (handleStatusChange newStatus s) = newStatus"
  by (simp add: handleStatusChange_def Let_def)

lemma settled_selectedFormat:
  "selectedFormat (snd (settled t handleStatusChange outcome (c, s))) = selectedFormat s"
  by (simp add: settled_def Let_def handleStatusChange_selectedFormat split: sum.split option.split)

lemma settled_status:
  "status (snd (settled t handleStatusChange (tryCatch outcome) (c, s))) =
     (case outcome of Inr response \<Rightarrow> session_status response | Inl e \<Rightarrow> status s)"
  using handleApiError_throws [of "projl outcome"]
  by (cases outcome)
     (auto simp add: settled_def Let_def tryCatch_def handleStatusChange_status)

lemma click_keeps_formats:
  "outputFormat (fst (handler t handleStatusChange g api sid (Click b) (c, s))) = outputFormat c \<and>
   selectedFormat (snd (handler t handleStatusChange g api sid (Click b) (c, s))) = selectedFormat s"
  by (cases b)
     (simp_all add: handleStart_def handlePause_def handleResume_def handleCancel_def
        settled_outputFormat settled_selectedFormat)

lemma click_status:
  "status (snd (handler t handleStatusChange g (replying outcome) sid (Click b) (c, s))) =
     (case outcome of Inr response \<Rightarrow> session_status response | Inl e \<Rightarrow> status s)"
  by (cases b)
     (simp_all add: handleStart_def handlePause_def handleResume_def handleCancel_def
        startConversion_def pauseConversion_def resumeConversion_def cancelConversion_def
        replying_def settled_status)

lemma pollTick_selectedFormat: "selectedFormat (pollTick outcome s) = selectedFormat s"
  by (simp add: pollTick_def Let_def split: sum.split option.split)

lemma poll_status:
  "status (poll (replying outcome) s) = status s \<or>
   (\<exists>response. outcome = Inr response \<and> status (poll (replying outcome) s) = response_status response)"
  by (cases outcome)
     (auto simp add: poll_def pollTick_def Let_def getSessionProgress_def tryCatch_def replying_def
        split: option.split sum.split)

lemma step_started:
  assumes "status (snd cs) \<noteq> ''pending''" and "\<not> reportsPending ev"
  shows "status (snd (step t ev cs)) \<noteq> ''pending'' \<and>
         outputFormat (fst (step t ev cs)) = outputFormat (fst cs) \<and>
         selectedFormat (snd (step t ev cs)) = selectedFormat (snd cs)"
proof (cases ev)
  case (Tick outcome)
  obtain c s where cs: "cs = (c, s)" by (cases cs)
  have "status (poll (replying outcome) s) \<noteq> ''pending''"
    using poll_status [of outcome s] assms Tick cs by auto
  moreover have "selectedFormat (poll (replying outcome) s) = selectedFormat s"
    by (simp add: poll_def pollTick_selectedFormat split: option.split)
  ultimately show ?thesis
    using Tick cs by simp
next
  case (User uev outcome)
  obtain c s where cs: "cs = (c, s)" by (cases cs)
  show ?thesis
  proof (cases uev)
    case (ChangeFormat newFormat)
    then show ?thesis
      using User cs assms(1)
      by (simp add: controlsEvent_def renderControls_def isPending_def split: option.split)
  next
    case (Click b)
    have "outcome = Inr response \<Longrightarrow> session_status response \<noteq> ''pending''" for response
      using assms(2) User Click by simp
    then have "(case outcome of Inr response \<Rightarrow> session_status response | Inl e \<Rightarrow> status s)
                 \<noteq> ''pending''"
      using assms(1) cs by (cases outcome) simp_all
    then show ?thesis
      using User Click cs assms(1)
        click_keeps_formats [of t "Some handleFormatChange_App" "replying outcome" _ b c s]
        click_status [of t "Some handleFormatChange_App" outcome _ b c s]
      by (simp add: controlsEvent_def split: option.split)
  qed
qed

lemma run_started:
  "status (snd cs) \<noteq> ''pending'' \<Longrightarrow> \<forall>ev \<in> set events. \<not> reportsPending ev \<Longrightarrow>
     status (snd (run t events cs)) \<noteq> ''pending'' \<and>
     outputFormat (fst (run t events cs)) = outputFormat (fst cs) \<and>
     selectedFormat (snd (run t events cs)) = selectedFormat (snd cs)"
proof (induction events arbitrary: cs)
  case Nil
  then show ?case by (simp add: run_def)
next
  case (Cons ev events)
  have first: "status (snd (step t ev cs)) \<noteq> ''pending'' \<and>
         outputFormat (fst (step t ev cs)) = outputFormat (fst cs) \<and>
         selectedFormat (snd (step t ev cs)) = selectedFormat (snd cs)"
    using Cons.prems by (intro step_started) simp_all
  have later: "status (snd (run t events (step t ev cs))) \<noteq> ''pending'' \<and>
     outputFormat (fst (run t events (step t ev cs))) = outputFormat (fst (step t ev cs)) \<and>
     selectedFormat (snd (run t events (step t ev cs))) = selectedFormat (snd (step t ev cs))"
    using Cons.prems first by (intro Cons.IH) simp_all
  have "run t (ev # events) cs = run t events (step t ev cs)"
    by (simp add: run_def)
  with first later show ?case by simp
qed

text \<open>
  C4, as stated, fails: the client shows whatever status a response reports. The
  conversion is started (the status becomes \<open>processing\<close>), then a progress response
  reports \<open>pending\<close>, as one requested before the start and delivered after it does; the
  format selector is rendered again, and choosing \<open>csv\<close> changes the output format that
  was \<open>xlsx\<close> when \<open>startConversion\<close> was called.
\<close>

theorem format_selector_back_after_pending_response:
  "status (snd (run (i18n_t ''en'')
       [User (Click StartButton) (Inr \<lparr>session_id = ''abc'', session_status = ''processing''\<rparr>)]
       (initialControls,
        handleSessionCreated \<lparr>session_id = ''abc'', session_status = ''pending''\<rparr> initialApp)))
     = ''processing'' \<and>
   formatRadioGroup (renderControls
       (status (snd (run (i18n_t ''en'')
          [User (Click StartButton) (Inr \<lparr>session_id = ''abc'', session_status = ''processing''\<rparr>),
           Tick (Inr \<lparr>response_status = ''pending'', response_progress = 0,
                       response_error = None\<rparr>)]
          (initialControls,
           handleSessionCreated \<lparr>session_id = ''abc'', session_status = ''pending''\<rparr> initialApp))))
       (fst (run (i18n_t ''en'')
          [User (Click StartButton) (Inr \<lparr>session_id = ''abc'', session_status = ''processing''\<rparr>),
           Tick (Inr \<lparr>response_status = ''pending'', response_progress = 0,
                       response_error = None\<rparr>)]
          (initialControls,
           handleSessionCreated \<lparr>session_id = ''abc'', session_status = ''pending''\<rparr> initialApp))))
     = Some ''xlsx'' \<and>
   outputFormat (fst (run (i18n_t ''en'')
       [User (Click StartButton) (Inr \<lparr>session_id = ''abc'', session_status = ''processing''\<rparr>),
        Tick (Inr \<lparr>response_status = ''pending'', response_progress = 0, response_error = None\<rparr>),
        User (ChangeFormat ''csv'') (Inr \<lparr>session_id = ''abc'', session_status = ''processing''\<rparr>)]
       (initialControls,
        handleSessionCreated \<lparr>session_id = ''abc'', session_status = ''pending''\<rparr> initialApp)))
     = ''csv''"
  by (simp add: run_def controlsEvent_def renderControls_def isPending_def isProcessing_def
      isPaused_def handleStart_def startConversion_def tryCatch_def replying_def settled_def
      handleStatusChange_def handleSessionCreated_def initialApp_def initialControls_def
      poll_def pollTick_def getSessionProgress_def handleFormatChange_def
      handleFormatChange_App_def Let_def)

text \<open>
  C4, amended: once a conversion has started (the session status is no longer \<open>pending\<close>),
  and as long as no response that follows, to a request of the controls or to a progress
  poll, reports the status \<open>pending\<close>, then after any number of the session's events the
  status is still not \<open>pending\<close>, the output-format selector and the start button are not
  rendered, and the \<open>outputFormat\<close> of \<open>ConversionControls\<close> (the value \<open>handleStart\<close> passes
  to \<open>startConversion\<close>) and the \<open>selectedFormat\<close> of \<open>App\<close> are what they were: the format
  is fixed for the rest of the session.
\<close>

theorem format_fixed_while_no_pending_response:
  "status s \<noteq> ''pending'' \<Longrightarrow> \<forall>ev \<in> set events. \<not> reportsPending ev \<Longrightarrow>
     status (snd (run t (take n events) (c, s))) \<noteq> ''pending'' \<and>
     formatRadioGroup (renderControls (status (snd (run t (take n events) (c, s))))
                                      (fst (run t (take n events) (c, s)))) = None \<and>
     StartButton \<notin> set (buttons (renderControls (status (snd (run t (take n events) (c, s))))
                                                  (fst (run t (take n events) (c, s))))) \<and>
     outputFormat (fst (run t (take n events) (c, s))) = outputFormat c \<and>
     selectedFormat (snd (run t (take n events) (c, s))) = selectedFormat s"
proof -
  assume started: "status s \<noteq> ''pending''"
    and answers: "\<forall>ev \<in> set events. \<not> reportsPending ev"
  have "\<forall>ev \<in> set (take n events). \<not> reportsPending ev"
    using answers by (auto dest: in_set_takeD)
  then have kept: "status (snd (run t (take n events) (c, s))) \<noteq> ''pending'' \<and>
     outputFormat (fst (run t (take n events) (c, s))) = outputFormat (fst (c, s)) \<and>
     selectedFormat (snd (run t (take n events) (c, s))) = selectedFormat (snd (c, s))"
    using started by (intro run_started) simp_all
  then show ?thesis
    by (simp add: renderControls_def isPending_def)
qed

theorem format_fixed_while_no_pending_response_witness:
  "status (handleStatusChange ''processing''
             (handleSessionCreated \<lparr>session_id = ''abc'', session_status = ''pending''\<rparr> initialApp))
     \<noteq> ''pending'' \<and>
   \<not> reportsPending (Tick (Inr \<lparr>response_status = ''processing'', response_progress = 40,
                                  response_error = None\<rparr>)) \<and>
   \<not> reportsPending (User (Click PauseButton)
                            (Inr \<lparr>session_id = ''abc'', session_status = ''paused''\<rparr>)) \<and>
   \<not> reportsPending (User (ChangeFormat ''csv'')
                            (Inr \<lparr>session_id = ''abc'', session_status = ''paused''\<rparr>)) \<and>
   outputFormat (fst (run (i18n_t ''en'')
       (take 3 [Tick (Inr \<lparr>response_status = ''processing'', response_progress = 40,
                             response_error = None\<rparr>),
                User (Click PauseButton) (Inr \<lparr>session_id = ''abc'', session_status = ''paused''\<rparr>),
                User (ChangeFormat ''csv'') (Inr \<lparr>session_id = ''abc'', session_status = ''paused''\<rparr>)])
       (initialControls,
        handleStatusChange ''processing''
          (handleSessionCreated \<lparr>session_id = ''abc'', session_status = ''pending''\<rparr> initialApp))))
     = ''xlsx''"
  using format_fixed_while_no_pending_response
          [of "handleStatusChange ''processing''
                 (handleSessionCreated \<lparr>session_id = ''abc'', session_status = ''pending''\<rparr> initialApp)"
              "[Tick (Inr \<lparr>response_status = ''processing'', response_progress = 40,
                             response_error = None\<rparr>),
                User (Click PauseButton) (Inr \<lparr>session_id = ''abc'', session_status = ''paused''\<rparr>),
                User (ChangeFormat ''csv'') (Inr \<lparr>session_id = ''abc'', session_status = ''paused''\<rparr>)]"
              "i18n_t ''en''" 3 initialControls]
  by (simp add: handleStatusChange_def handleSessionCreated_def initialApp_def initialControls_def)

subsection \<open>C5\<close>

text \<open>
  C5: when the status is not \<open>completed\<close>, \<open>App\<close> renders no download button, and no element
  it renders opens a window when clicked, so \<open>handleDownload\<close> (the only caller of
  \<open>getDownloadUrl\<close>) cannot be reached; with a session whose status is \<open>completed\<close> the
  button is rendered and its click opens the download URL.
\<close>

theorem download_only_when_completed:
  "(status s \<noteq> ''completed'' \<longrightarrow>
      (\<forall>format. DownloadButton format \<notin> set (renderApp s)) \<and>
      (\<forall>el \<in> set (renderApp s). snd (onClick env el s) = [])) \<and>
   (session s = Some sess \<and> status s = ''completed'' \<longrightarrow>
      DownloadButton (selectedFormat s) \<in> set (renderApp s) \<and>
      snd (onClick env (DownloadButton (selectedFormat s)) s) =
        [WindowOpen (getDownloadUrl env (session_id sess)) ''_blank''])"
  by (auto simp add: renderApp_def handleDownload_def call1_def split: option.splits)

theorem download_only_when_completed_witness:
  "status (handleSessionCreated \<lparr>session_id = ''abc'', session_status = ''pending''\<rparr> initialApp)
     \<noteq> ''completed'' \<and>
   DownloadButton ''xlsx'' \<notin>
     set (renderApp (handleSessionCreated \<lparr>session_id = ''abc'', session_status = ''pending''\<rparr> initialApp)) \<and>
   DownloadButton ''xlsx'' \<in>
     set (renderApp (handleStatusChange ''completed''
       (handleSessionCreated \<lparr>session_id = ''abc'', session_status = ''pending''\<rparr> initialApp)))"
  using download_only_when_completed
          [of "handleSessionCreated \<lparr>session_id = ''abc'', session_status = ''pending''\<rparr> initialApp"
              None "\<lparr>session_id = ''abc'', session_status = ''pending''\<rparr>"]
        download_only_when_completed
          [of "handleStatusChange ''completed''
                (handleSessionCreated \<lparr>session_id = ''abc'', session_status = ''pending''\<rparr> initialApp)"
              None "\<lparr>session_id = ''abc'', session_status = ''pending''\<rparr>"]
  by (simp add: handleStatusChange_def handleSessionCreated_def initialApp_def)

subsection \<open>C6\<close>

text \<open>
  C6, as stated, fails: when the server answers with an error status and a body without
  \<open>detail\<close>, \<open>pauseConversion\<close> throws an \<open>Error\<close> whose message is the fixed text
  \<open>An error occurred\<close>, which is neither a detail message supplied by the server (there is
  none), nor the no-response message, nor the original error.
\<close>

theorem pauseConversion_default_message:
  "(perform (rejecting \<lparr>error_response = Some (Data JsUndefined), error_request = True,
                         error_message = ''Request failed with status code 500''\<rparr>)
      (PauseConversion ''abc'') :: thrown + session_data option) =
     Inl (NewError ''An error occurred'') \<and>
   error_response \<lparr>error_response = Some (Data JsUndefined), error_request = True,
                   error_message = ''Request failed with status code 500''\<rparr>
     = Some (Data JsUndefined) \<and>
   NewError ''An error occurred'' \<noteq>
     NewError ''No response from server. Please check your connection.'' \<and>
   NewError ''An error occurred'' \<noteq>
     Rethrown \<lparr>error_response = Some (Data JsUndefined), error_request = True,
               error_message = ''Request failed with status code 500''\<rparr>"
  by (simp add: pauseConversion_def tryCatch_def handleApiError_def rejecting_def)

text \<open>
  C6, amended: every operation of the API service returns the server's response data when
  the request succeeds, and throws when it fails; no operation resolves with no value.
  What it throws is: when the server answered with an error status and a body whose
  \<open>detail\<close> is truthy, an \<open>Error\<close> carrying that detail (converted to a string when it is
  not one); when the body's \<open>detail\<close> is missing or falsy, an \<open>Error\<close> carrying the default
  message \<open>An error occurred\<close>; when the request was sent and got no response, an \<open>Error\<close>
  carrying the no-response message; otherwise the original error. (What is thrown for an
  error response whose body is \<open>null\<close> or \<open>undefined\<close> is left open.)
\<close>

theorem api_operation_returns_or_throws:
  "(\<forall>d. api (request_of op) = Inr d \<longrightarrow> perform api op = Inr (Some d)) \<and>
   (\<forall>e. api (request_of op) = Inl e \<longrightarrow>
      (\<exists>ex. perform api op = Inl ex) \<and>
      (\<forall>detail. error_response e = Some (Data detail) \<and> truthy_value detail \<longrightarrow>
          perform api op = Inl (NewError (toString detail))) \<and>
      (\<forall>detail. error_response e = Some (Data detail) \<and> \<not> truthy_value detail \<longrightarrow>
          perform api op = Inl (NewError ''An error occurred'')) \<and>
      (error_response e = None \<and> error_request e \<longrightarrow>
          perform api op =
            Inl (NewError ''No response from server. Please check your connection.'')) \<and>
      (error_response e = None \<and> \<not> error_request e \<longrightarrow>
          perform api op = Inl (Rethrown e))) \<and>
   perform api op \<noteq> Inr None"
proof (cases "api (request_of op)")
  case (Inr d)
  then show ?thesis by (simp add: perform_tryCatch tryCatch_def)
next
  case (Inl e)
  obtain ex where thrown: "handleApiError e = Inl ex"
    using handleApiError_throws [of e] by blast
  have throws: "perform api op = Inl ex"
    using Inl thrown by (simp add: perform_tryCatch tryCatch_def)
  have which: "(\<forall>detail. error_response e = Some (Data detail) \<and> truthy_value detail \<longrightarrow>
          ex = NewError (toString detail)) \<and>
      (\<forall>detail. error_response e = Some (Data detail) \<and> \<not> truthy_value detail \<longrightarrow>
          ex = NewError ''An error occurred'') \<and>
      (error_response e = None \<and> error_request e \<longrightarrow>
          ex = NewError ''No response from server. Please check your connection.'') \<and>
      (error_response e = None \<and> \<not> error_request e \<longrightarrow> ex = Rethrown e)"
    using thrown by (auto simp add: handleApiError_def)
  from Inl throws which show ?thesis by simp
qed

theorem api_operation_returns_or_throws_witness:
  "(perform (rejecting \<lparr>error_response = Some (Data (JsString ''Session not found'')),
                         error_request = True,
                         error_message = ''Request failed with status code 404''\<rparr>)
      (CancelConversion ''abc'') :: thrown + session_data option) =
     Inl (NewError ''Session not found'') \<and>
   (perform (rejecting \<lparr>error_response = Some (Data (JsOther True ''[object Object]'')),
                         error_request = True,
                         error_message = ''Request failed with status code 422''\<rparr>)
      (StartConversion ''abc'' ''pdf'') :: thrown + session_data option) =
     Inl (NewError ''[object Object]'') \<and>
   perform (answering \<lparr>session_id = ''abc'', session_status = ''cancelled''\<rparr>)
      (CancelConversion ''abc'') =
     Inr (Some \<lparr>session_id = ''abc'', session_status = ''cancelled''\<rparr>)"
  using api_operation_returns_or_throws
          [of "rejecting \<lparr>error_response = Some (Data (JsString ''Session not found'')),
                           error_request = True,
                           error_message = ''Request failed with status code 404''\<rparr>
               :: session_data transport" "CancelConversion ''abc''"]
        api_operation_returns_or_throws
          [of "rejecting \<lparr>error_response = Some (Data (JsOther True ''[object Object]'')),
                           error_request = True,
                           error_message = ''Request failed with status code 422''\<rparr>
               :: session_data transport" "StartConversion ''abc'' ''pdf''"]
        api_operation_returns_or_throws
          [of "answering \<lparr>session_id = ''abc'', session_status = ''cancelled''\<rparr>"
              "CancelConversion ''abc''"]
  by (simp add: rejecting_def answering_def)

subsection \<open>C7\<close>

lemma settled_rejected:
  "settled t f (Inl ex) (c, p) =
     (c\<lparr>loading := False, controlsError := Some (jsOr (Some (message_of ex)) (t ''error.conversion''))\<rparr>, p)"
  by (simp add: settled_def Let_def)

text \<open>
  C7: pausing a session that is already \<open>paused\<close> is answered with \<open>InvalidState\<close> and
  leaves the registry of sessions as it was. On the client, the controls of a \<open>paused\<close>
  session render no pause button, and when the pause request is rejected \<open>handlePause\<close>
  leaves the state of \<open>App\<close> (the session status it shows included) untouched and sets a
  non-empty error, so the rejection is shown and not taken for a success.
\<close>

theorem pause_on_paused_is_invalid_state:
  "registry sid = Some sess \<Longrightarrow> status_of sess = ''paused'' \<Longrightarrow>
   api (request_of (PauseConversion sid)) = Inl e \<Longrightarrow>
     spec_pause registry sid = (registry, Inl InvalidState) \<and>
     PauseButton \<notin> set (buttons (renderControls ''paused'' c)) \<and>
     snd (handlePause (i18n_t lng) handleStatusChange api sid (c, s)) = s \<and>
     truthy (controlsError (fst (handlePause (i18n_t lng) handleStatusChange api sid (c, s))))"
proof -
  assume known: "registry sid = Some sess" and paused: "status_of sess = ''paused''"
    and rejected: "api (request_of (PauseConversion sid)) = Inl e"
  have server: "spec_pause registry sid = (registry, Inl InvalidState)"
    using known paused by (simp add: spec_pause_def)
  have view: "PauseButton \<notin> set (buttons (renderControls ''paused'' c))"
    by (simp add: renderControls_def isPending_def isProcessing_def isPaused_def)
  obtain ex where thrown: "pauseConversion api sid = (Inl ex :: thrown + session_data option)"
    using rejected handleApiError_throws [of e]
    by (auto simp add: pauseConversion_def tryCatch_def)
  have fallback: "jsOr (Some (message_of ex)) (i18n_t lng ''error.conversion'') \<noteq> []"
    by (rule jsOr_nonempty) (simp add: i18n_t_nonempty)
  have client: "handlePause (i18n_t lng) handleStatusChange api sid (c, s) =
      (c\<lparr>loading := False,
         controlsError := Some (jsOr (Some (message_of ex)) (i18n_t lng ''error.conversion''))\<rparr>, s)"
    using thrown by (simp add: handlePause_def settled_rejected)
  from server view client fallback show ?thesis
    by simp
qed

theorem pause_on_paused_is_invalid_state_witness:
  "spec_pause [''abc'' \<mapsto> \<lparr>status_of = ''paused'', progress_of = 40, current_page = 2,
                              total_page_count = 5\<rparr>] ''abc'' =
     ([''abc'' \<mapsto> \<lparr>status_of = ''paused'', progress_of = 40, current_page = 2,
                      total_page_count = 5\<rparr>], Inl InvalidState) \<and>
   status (snd (handlePause (i18n_t ''en'') handleStatusChange
       (rejecting \<lparr>error_response = Some (Data (JsString ''Session is already paused'')),
                    error_request = True,
                    error_message = ''Request failed with status code 400''\<rparr>)
       ''abc''
       (initialControls,
        handleStatusChange ''paused''
          (handleSessionCreated \<lparr>session_id = ''abc'', session_status = ''pending''\<rparr> initialApp))))
     = ''paused''"
  using pause_on_paused_is_invalid_state
          [of "[''abc'' \<mapsto> \<lparr>status_of = ''paused'', progress_of = 40, current_page = 2,
                                total_page_count = 5\<rparr>]" "''abc''"
              "\<lparr>status_of = ''paused'', progress_of = 40, current_page = 2, total_page_count = 5\<rparr>"
              "rejecting \<lparr>error_response = Some (Data (JsString ''Session is already paused'')),
                           error_request = True,
                           error_message = ''Request failed with status code 400''\<rparr>"
              "\<lparr>error_response = Some (Data (JsString ''Session is already paused'')),
                 error_request = True,
                 error_message = ''Request failed with status code 400''\<rparr>"
              initialControls "''en''"
              "handleStatusChange ''paused''
                 (handleSessionCreated \<lparr>session_id = ''abc'', session_status = ''pending''\<rparr> initialApp)"]
  by (simp add: rejecting_def handleStatusChange_def handleSessionCreated_def initialApp_def)

subsection \<open>C8\<close>

text \<open>
  C8: \<open>getDownloadUrl\<close>, called with a session id and a format, returns
  \<open>API_BASE_URL + '/download/' + sessionId\<close> whatever the format, and \<open>handleDownload\<close> does
  the same thing for any two selected formats, \<open>csv\<close> and \<open>xlsx\<close> among them.
\<close>

theorem download_url_independent_of_format:
  "call1 (getDownloadUrl env) [sessionId, format] = API_BASE_URL env @ ''/download/'' @ sessionId \<and>
   handleDownload env (s\<lparr>selectedFormat := ''csv''\<rparr>) =
     handleDownload env (s\<lparr>selectedFormat := ''xlsx''\<rparr>) \<and>
   handleDownload env (s\<lparr>selectedFormat := format1\<rparr>) =
     handleDownload env (s\<lparr>selectedFormat := format2\<rparr>)"
  by (simp add: call1_def getDownloadUrl_def handleDownload_def split: option.split)

subsection \<open>C9\<close>

lemma onDropRejected_uploadError:
  "\<exists>key \<in> {''error.fileSize'', ''error.invalidFile'', ''error.generic''}.
     uploadError (onDropRejected t fileRejections u) = Some (t key)"
  by (simp add: onDropRejected_def Let_def)

text \<open>
  C9: whatever list of rejections \<open>onDropRejected\<close> receives and whatever the translation
  function, \<open>uploadError\<close> is afterwards a string and not \<open>null\<close>; with the translation
  function of the application, in any language, that string is not empty, and the error
  alert is rendered with it.
\<close>

theorem drop_rejected_sets_uploadError:
  "(\<exists>m. uploadError (onDropRejected t fileRejections u) = Some m) \<and>
   (\<exists>m. m \<noteq> [] \<and>
        uploadError (onDropRejected (i18n_t lng) fileRejections u) = Some m \<and>
        uploadErrorAlert (onDropRejected (i18n_t lng) fileRejections u) = Some m)"
proof -
  have first: "\<exists>m. uploadError (onDropRejected t fileRejections u) = Some m"
    using onDropRejected_uploadError [of t fileRejections u] by auto
  obtain key where among: "key \<in> {''error.fileSize'', ''error.invalidFile'', ''error.generic''}"
    and set_to: "uploadError (onDropRejected (i18n_t lng) fileRejections u) = Some (i18n_t lng key)"
    using onDropRejected_uploadError [of "i18n_t lng" fileRejections u] by blast
  have "key \<noteq> []" and "CHR '':'' \<notin> set key"
    using among by auto
  then have "i18n_t lng key \<noteq> []"
    by (rule i18n_t_nonempty)
  with set_to have "i18n_t lng key \<noteq> [] \<and>
      uploadError (onDropRejected (i18n_t lng) fileRejections u) = Some (i18n_t lng key) \<and>
      uploadErrorAlert (onDropRejected (i18n_t lng) fileRejections u) = Some (i18n_t lng key)"
    by (simp add: uploadErrorAlert_def)
  then have second: "\<exists>m. m \<noteq> [] \<and>
        uploadError (onDropRejected (i18n_t lng) fileRejections u) = Some m \<and>
        uploadErrorAlert (onDropRejected (i18n_t lng) fileRejections u) = Some m"
    by blast
  from first second show ?thesis by simp
qed

subsection \<open>C10\<close>

lemma languageChanged_invariant:
  "dir (documentElement (languageChanged lng p)) = (if lng = ''he'' then ''rtl'' else ''ltr'') \<and>
   lang (documentElement (languageChanged lng p)) = lng \<and>
   activeLanguage (languageChanged lng p) = lng"
  by (simp add: languageChanged_def updateDocumentDirection_def activeLanguage_def)

lemma setInitialDirection_invariant:
  "language p \<noteq> Some [] \<Longrightarrow>
   dir (documentElement (setInitialDirection p)) =
     (if activeLanguage (setInitialDirection p) = ''he'' then ''rtl'' else ''ltr'') \<and>
   lang (documentElement (setInitialDirection p)) = activeLanguage (setInitialDirection p)"
  by (cases "language p")
     (simp_all add: setInitialDirection_def updateDocumentDirection_def activeLanguage_def)

text \<open>
  C10: after the module has set the initial direction, and after every language change that
  follows, \<open>document.documentElement.dir\<close> is \<open>rtl\<close> exactly when the active language is
  \<open>he\<close> (and \<open>ltr\<close> otherwise), and \<open>document.documentElement.lang\<close> is the active language.
  The language i18next holds is \<open>undefined\<close> or a language code, never the empty string.
\<close>

theorem document_direction_follows_language:
  "language p \<noteq> Some [] \<Longrightarrow>
     (dir (documentElement (afterChanges p lngs)) = ''rtl'') =
       (activeLanguage (afterChanges p lngs) = ''he'') \<and>
     (dir (documentElement (afterChanges p lngs)) = ''ltr'') =
       (activeLanguage (afterChanges p lngs) \<noteq> ''he'') \<and>
     lang (documentElement (afterChanges p lngs)) = activeLanguage (afterChanges p lngs)"
proof (cases lngs rule: rev_cases)
  case Nil
  assume "language p \<noteq> Some []"
  then show ?thesis
    using Nil setInitialDirection_invariant [of p] by (simp add: afterChanges_def)
next
  case (snoc earlier lng)
  then show ?thesis
    using languageChanged_invariant
            [of lng "foldl (\<lambda>q l. languageChanged l q) (setInitialDirection p) earlier"]
    by (simp add: afterChanges_def)
qed

theorem document_direction_follows_language_witness:
  "language \<lparr>language = None, documentElement = \<lparr>dir = [], lang = []\<rparr>\<rparr> \<noteq> Some [] \<and>
   dir (documentElement
     (afterChanges \<lparr>language = None, documentElement = \<lparr>dir = [], lang = []\<rparr>\<rparr> [''he''])) = ''rtl'' \<and>
   lang (documentElement
     (afterChanges \<lparr>language = None, documentElement = \<lparr>dir = [], lang = []\<rparr>\<rparr> [''he'', ''en''])) = ''en''"
  using document_direction_follows_language
          [of "\<lparr>language = None, documentElement = \<lparr>dir = [], lang = []\<rparr>\<rparr>" "[''he'']"]
        document_direction_follows_language
          [of "\<lparr>language = None, documentElement = \<lparr>dir = [], lang = []\<rparr>\<rparr>" "[''he'', ''en'']"]
  by (simp add: afterChanges_def languageChanged_def activeLanguage_def)

end
